theory Spec2Isabelle
  imports Complex_Main "HOL-Library.Sublist"
begin

section \<open>Python values used by the scraper\<close>

text \<open>
  The scraper \<^verbatim>\<open>scripts/scrape_songkick.py\<close> works on Python floats. A float is
  modelled by its exact value when finite (every finite double is a rational number),
  or by one of the three special values that \<^verbatim>\<open>float("inf")\<close>, \<^verbatim>\<open>float("-inf")\<close>
  and \<^verbatim>\<open>float("nan")\<close> produce. Arithmetic on finite values is exact in the model;
  the final rounding of a result to the nearest double is not represented. In the
  examples a decimal such as \<open>19.4\<close> stands for the double nearest to it; no comparison
  made below separates the two.
\<close>

datatype pyfloat = Fin rat | PInf | NInf | NaN

text \<open>\<^verbatim>\<open>a > b\<close> on floats: false as soon as one side is NaN.\<close>

fun fgt :: "pyfloat \<Rightarrow> pyfloat \<Rightarrow> bool" where
  "fgt NaN _ = False"
| "fgt _ NaN = False"
| "fgt (Fin a) (Fin b) = (b < a)"
| "fgt PInf PInf = False"
| "fgt PInf _ = True"
| "fgt _ PInf = False"
| "fgt NInf _ = False"
| "fgt _ NInf = True"

definition flt :: "pyfloat \<Rightarrow> pyfloat \<Rightarrow> bool" where
  "flt a b = fgt b a"

text \<open>\<^verbatim>\<open>a <= b\<close> on floats, which is not the negation of \<^verbatim>\<open>a > b\<close> when a NaN is involved.\<close>

fun fle :: "pyfloat \<Rightarrow> pyfloat \<Rightarrow> bool" where
  "fle NaN _ = False"
| "fle _ NaN = False"
| "fle a b = (\<not> fgt a b)"

text \<open>Truth value of a float in a condition: every float except zero is true.\<close>

fun truthy :: "pyfloat \<Rightarrow> bool" where
  "truthy (Fin x) = (x \<noteq> 0)"
| "truthy _ = True"

text \<open>
  JSON documents as \<^verbatim>\<open>json.loads\<close> returns them. \<open>JNull\<close> is Python's \<^verbatim>\<open>None\<close>;
  \<open>JDict\<close> lists the items of the parsed dictionary.
\<close>

datatype json =
    JNull
  | JBool bool
  | JInt int
  | JNum pyfloat
  | JStr string
  | JList "json list"
  | JDict "(string \<times> json) list"

text \<open>
  Library functions the script calls and whose code is not part of the repository.
  They are parameters of the model:
  \<^item> \<open>parse_float\<close> is \<^verbatim>\<open>float(s)\<close> on a command-line argument, \<open>None\<close> when it raises
    \<^verbatim>\<open>ValueError\<close>;
  \<^item> \<open>float_str\<close> is the text an f-string gives for a float;
  \<^item> \<open>geodesic_km\<close> is \<^verbatim>\<open>geodesic((lat1, lon1), (lat2, lon2)).kilometers\<close> of geopy,
    \<open>None\<close> when the call raises;
  \<^item> \<open>dumps_ok\<close> tells whether \<^verbatim>\<open>json.dumps\<close> followed by \<^verbatim>\<open>json.loads\<close> succeeds.
\<close>

record pylib =
  parse_float :: "string \<Rightarrow> pyfloat option"
  float_str :: "pyfloat \<Rightarrow> string"
  geodesic_km :: "pyfloat \<times> pyfloat \<Rightarrow> json \<times> json \<Rightarrow> pyfloat option"
  dumps_ok :: "json \<Rightarrow> bool"

section \<open>Command-line arguments\<close>

record query =
  hotel_lat :: pyfloat
  hotel_lon :: pyfloat
  radius_km :: pyfloat

datatype args_result = TooFew | NotAFloat | Parsed query

text \<open>
  Lines 60--71. \<open>argv\<close> is \<^verbatim>\<open>sys.argv\<close>, the script name first. The three conversions
  are made in order and the first failure leaves the \<^verbatim>\<open>try\<close> block.
\<close>

definition parse_args :: "pylib \<Rightarrow> string list \<Rightarrow> args_result" where
  "parse_args lib argv =
     (if length argv < 4 then TooFew
      else case parse_float lib (argv ! 1) of
             None \<Rightarrow> NotAFloat
           | Some la \<Rightarrow>
               (case parse_float lib (argv ! 2) of
                  None \<Rightarrow> NotAFloat
                | Some lo \<Rightarrow>
                    (case parse_float lib (argv ! 3) of
                       None \<Rightarrow> NotAFloat
                     | Some r \<Rightarrow> Parsed \<lparr>hotel_lat = la, hotel_lon = lo, radius_km = r\<rparr>)))"

section \<open>Target URL\<close>

definition BASE_URL :: string where
  "BASE_URL = ''https://www.songkick.com''"

definition URL_TIJUANA :: string where
  "URL_TIJUANA = ''https://www.songkick.com/es/metro-areas/31097-mexico-tijuana''"

definition URL_MONTERREY :: string where
  "URL_MONTERREY = ''https://www.songkick.com/es/metro-areas/31098-mexico-monterrey''"

definition URL_GUADALAJARA :: string where
  "URL_GUADALAJARA = ''https://www.songkick.com/es/metro-areas/31099-mexico-guadalajara''"

definition URL_MEXICO_CITY :: string where
  "URL_MEXICO_CITY = ''https://www.songkick.com/es/metro-areas/31100-mexico-mexico-city''"

definition search_url :: "pylib \<Rightarrow> pyfloat \<Rightarrow> pyfloat \<Rightarrow> pyfloat \<Rightarrow> string" where
  "search_url lib la lo r =
     ''https://www.songkick.com/search?query=&location='' @ float_str lib la @ '','' @
     float_str lib lo @ ''&radius='' @ float_str lib r"

text \<open>The test of line 80.\<close>

definition in_mexico :: "pyfloat \<Rightarrow> pyfloat \<Rightarrow> bool" where
  "in_mexico la lo \<longleftrightarrow>
     fgt la (Fin 19) \<and> flt la (Fin 33) \<and> fgt lo (Fin (- 118)) \<and> flt lo (Fin (- 86))"

text \<open>Lines 77--101.\<close>

definition resolve_url :: "pylib \<Rightarrow> query \<Rightarrow> string" where
  "resolve_url lib q =
     (if truthy (hotel_lat q) \<and> truthy (hotel_lon q) then
        if in_mexico (hotel_lat q) (hotel_lon q) then
          if fgt (hotel_lat q) (Fin 32) then URL_TIJUANA
          else if fgt (hotel_lat q) (Fin 25) then URL_MONTERREY
          else if fgt (hotel_lat q) (Fin 20) then URL_GUADALAJARA
          else URL_MEXICO_CITY
        else search_url lib (hotel_lat q) (hotel_lon q) (radius_km q)
      else URL_TIJUANA)"

section \<open>Listing elements and their extraction\<close>

text \<open>
  What the record extractor reads from one element returned by BeautifulSoup:
  \<^item> \<open>time_datetime\<close>: the \<^verbatim>\<open>datetime\<close> attribute of the first \<^verbatim>\<open>time\<close> descendant,
    when there is such a descendant and it has the attribute;
  \<^item> \<open>title_attr\<close>: the \<^verbatim>\<open>title\<close> attribute of the element itself;
  \<^item> \<open>strong_text\<close>, \<open>venue_text\<close>: the stripped text of the first \<^verbatim>\<open>strong\<close>
    descendant and of the first \<^verbatim>\<open>a.venue-link\<close> descendant;
  \<^item> \<open>event_href\<close>: the \<^verbatim>\<open>href\<close> of the first \<^verbatim>\<open>a.event-link\<close> descendant, when there
    is such a descendant and it has the attribute;
  \<^item> \<open>ld\<close>: the linked-data block of lines 356--368.
\<close>

datatype ld_block =
    NoMicroformat
  | NoScript
  | BadJson
  | Payload json

record listing =
  time_datetime :: "string option"
  title_attr :: "string option"
  strong_text :: "string option"
  venue_text :: "string option"
  event_href :: "string option"
  ld :: ld_block

text \<open>Lines 336--340: the date text before and after the cut to ten characters.\<close>

definition raw_fecha :: "listing \<Rightarrow> string" where
  "raw_fecha li =
     (case time_datetime li of
        Some d \<Rightarrow> d
      | None \<Rightarrow> (case title_attr li of Some t \<Rightarrow> t | None \<Rightarrow> []))"

definition fecha_of :: "listing \<Rightarrow> string" where
  "fecha_of li = (let f = raw_fecha li in if length f > 10 then take 10 f else f)"

definition nombre_of :: "listing \<Rightarrow> string" where
  "nombre_of li = (case strong_text li of Some t \<Rightarrow> t | None \<Rightarrow> [])"

definition lugar_of :: "listing \<Rightarrow> string" where
  "lugar_of li = (case venue_text li of Some t \<Rightarrow> t | None \<Rightarrow> [])"

definition enlace_of :: "listing \<Rightarrow> string" where
  "enlace_of li = (case event_href li of Some h \<Rightarrow> BASE_URL @ h | None \<Rightarrow> [])"

text \<open>
  \<^verbatim>\<open>d.get(k, default)\<close>. Only a dictionary has the method; on any other JSON value the
  call raises \<^verbatim>\<open>AttributeError\<close>, which is \<open>None\<close> here.
\<close>

definition py_get :: "json \<Rightarrow> string \<Rightarrow> json \<Rightarrow> json option" where
  "py_get d k dflt =
     (case d of
        JDict kvs \<Rightarrow> Some (case map_of kvs k of None \<Rightarrow> dflt | Some v \<Rightarrow> v)
      | _ \<Rightarrow> None)"

text \<open>
  Lines 362--366, on the parsed payload. \<open>None\<close> stands for an exception raised inside the
  \<^verbatim>\<open>try\<close> block: \<^verbatim>\<open>data[0]\<close> on an empty list, or \<^verbatim>\<open>.get\<close> on a value that is not a
  dictionary.
\<close>

definition first_if_list :: "json \<Rightarrow> json option" where
  "first_if_list data =
     (case data of
        JList [] \<Rightarrow> None
      | JList (x # _) \<Rightarrow> Some x
      | _ \<Rightarrow> Some data)"

definition geo_coords :: "json \<Rightarrow> (json \<times> json) option" where
  "geo_coords data0 =
     (case first_if_list data0 of
        None \<Rightarrow> None
      | Some data \<Rightarrow>
          (case py_get data ''location'' (JDict []) of
             None \<Rightarrow> None
           | Some loc \<Rightarrow>
               (case py_get loc ''geo'' (JDict []) of
                  None \<Rightarrow> None
                | Some geo \<Rightarrow>
                    (case py_get geo ''latitude'' JNull of
                       None \<Rightarrow> None
                     | Some la \<Rightarrow>
                         (case py_get geo ''longitude'' JNull of
                            None \<Rightarrow> None
                          | Some lo \<Rightarrow> Some (la, lo))))))"

text \<open>
  Lines 355--368: \<^verbatim>\<open>lat\<close> and \<^verbatim>\<open>lon\<close> start as \<^verbatim>\<open>None\<close> and keep that value when the
  block is missing or when anything in the \<^verbatim>\<open>try\<close> raises.
\<close>

definition coords_of :: "ld_block \<Rightarrow> json \<times> json" where
  "coords_of b =
     (case b of
        Payload d \<Rightarrow> (case geo_coords d of Some c \<Rightarrow> c | None \<Rightarrow> (JNull, JNull))
      | _ \<Rightarrow> (JNull, JNull))"

text \<open>
  \<^verbatim>\<open>round(x, 2)\<close>: the nearest multiple of one hundredth, a tie going to the even
  neighbour; infinities and NaN are returned as they are.
\<close>

definition round_half_even :: "rat \<Rightarrow> int" where
  "round_half_even x =
     (let f = \<lfloor>x\<rfloor>; d = x - of_int f
      in if d < 1 / 2 then f
         else if 1 / 2 < d then f + 1
         else if even f then f else f + 1)"

fun py_round2 :: "pyfloat \<Rightarrow> pyfloat" where
  "py_round2 (Fin x) = Fin (of_int (round_half_even (x * 100)) / 100)"
| "py_round2 y = y"

record event =
  nombre :: string
  fecha :: string
  lugar :: string
  enlace :: string
  latitude :: json
  longitude :: json
  distance_km :: pyfloat

text \<open>What happens to one element in the loop of lines 333--388.\<close>

datatype element_result =
    NoCoords
  | DistanceRaised
  | TooFar
  | Emitted event

definition process_element :: "pylib \<Rightarrow> query \<Rightarrow> listing \<Rightarrow> element_result" where
  "process_element lib q li =
     (let (lat, lon) = coords_of (ld li)
      in if lat = JNull \<or> lon = JNull then NoCoords
         else case geodesic_km lib (hotel_lat q, hotel_lon q) (lat, lon) of
                None \<Rightarrow> DistanceRaised
              | Some distance \<Rightarrow>
                  if fgt distance (radius_km q) then TooFar
                  else Emitted \<lparr>nombre = nombre_of li, fecha = fecha_of li,
                                 lugar = lugar_of li, enlace = enlace_of li,
                                 latitude = lat, longitude = lon,
                                 distance_km = py_round2 distance\<rparr>)"

text \<open>The loop: records are appended in document order, every other outcome skips.\<close>

fun eventos_of :: "pylib \<Rightarrow> query \<Rightarrow> listing list \<Rightarrow> event list" where
  "eventos_of lib q [] = []"
| "eventos_of lib q (li # rest) =
     (case process_element lib q li of
        Emitted e \<Rightarrow> e # eventos_of lib q rest
      | _ \<Rightarrow> eventos_of lib q rest)"

text \<open>The dictionary of lines 377--385 as \<^verbatim>\<open>json.dumps\<close> receives it.\<close>

definition event_json :: "event \<Rightarrow> json" where
  "event_json e =
     JDict [(''nombre'', JStr (nombre e)), (''fecha'', JStr (fecha e)),
            (''lugar'', JStr (lugar e)), (''enlace'', JStr (enlace e)),
            (''latitude'', latitude e), (''longitude'', longitude e),
            (''distance_km'', JNum (distance_km e))]"

fun keys_of :: "json \<Rightarrow> string list" where
  "keys_of (JDict kvs) = map fst kvs"
| "keys_of _ = []"

section \<open>Selector cascade\<close>

text \<open>
  A candidate is a tag name with one attribute name and value, as the pairs of
  \<^verbatim>\<open>selectores_html\<close> are written. The parsed document is seen through the two searches
  the script makes: \<^verbatim>\<open>find_all(tag, attrs)\<close> and the search for any element whose class
  contains \<^verbatim>\<open>event\<close>.
\<close>

type_synonym selector = "string \<times> string \<times> string"

record soup =
  find_all :: "selector \<Rightarrow> listing list"
  find_generic :: "listing list"

definition selectores_html :: "selector list" where
  "selectores_html =
     [(''li'', ''class_'', ''event-listings-element''),
      (''li'', ''class_'', ''event''),
      (''div'', ''class_'', ''event-listings-element''),
      (''div'', ''class_'', ''event''),
      (''article'', ''class_'', ''event''),
      (''div'', ''data-testid'', ''event-item''),
      (''li'', ''class_'', ''event-item'')]"

text \<open>Lines 317--322: the first candidate with a match ends the loop.\<close>

fun cascade :: "soup \<Rightarrow> selector list \<Rightarrow> listing list" where
  "cascade doc [] = []"
| "cascade doc (sel # rest) =
     (let encontrados = find_all doc sel
      in if encontrados \<noteq> [] then encontrados else cascade doc rest)"

text \<open>Lines 306--328.\<close>

definition select_events :: "soup \<Rightarrow> listing list" where
  "select_events doc =
     (let eventos_encontrados = cascade doc selectores_html
      in if eventos_encontrados = [] then find_generic doc else eventos_encontrados)"

section \<open>Page validation\<close>

text \<open>Python's \<^verbatim>\<open>needle in text\<close> on strings.\<close>

fun contains :: "string \<Rightarrow> string \<Rightarrow> bool" where
  "contains needle [] = (needle = [])"
| "contains needle (c # cs) = (prefix needle (c # cs) \<or> contains needle cs)"

definition contenido_bloqueado :: "string list" where
  "contenido_bloqueado = [''captcha'', ''access denied'', ''forbidden'', ''blocked'']"

text \<open>
  Lines 250--263: the page is rejected when it is short or when its lower-case form names
  a blocking word. \<open>low\<close> is \<^verbatim>\<open>str.lower\<close>, which follows the Unicode case mapping and is
  supplied by the world of the run.
\<close>

definition page_rejected :: "(string \<Rightarrow> string) \<Rightarrow> string \<Rightarrow> bool" where
  "page_rejected low html \<longleftrightarrow>
     length html < 1000 \<or> list_ex (\<lambda>problema. contains problema (low html)) contenido_bloqueado"

section \<open>The run and its effects\<close>

text \<open>
  Every call that leaves the script (Playwright, the event loop) is answered by the
  world the run executes in. An awaited call
  \<^item> completes (\<open>Done\<close>),
  \<^item> ends with \<^verbatim>\<open>asyncio.TimeoutError\<close> from the \<^verbatim>\<open>wait_for\<close> around it (\<open>TimedOut\<close>),
  \<^item> raises another exception of class \<^verbatim>\<open>Exception\<close> (\<open>Failed\<close>), or
  \<^item> is where the global deadline of line 405 cancels the task, so that
    \<^verbatim>\<open>CancelledError\<close> is raised at that call (\<open>Cancelled\<close>). \<^verbatim>\<open>CancelledError\<close> is not of
    class \<^verbatim>\<open>Exception\<close>: only a bare \<^verbatim>\<open>except:\<close> and a \<^verbatim>\<open>finally\<close> see it.
\<close>

datatype outcome = Done | TimedOut | Failed | Cancelled

text \<open>
  One field per call site. The two \<open>close_\<close> fields answer \<^verbatim>\<open>browser.close()\<close> in the
  failure branches (lines 206, 211, 252, 261, 276, 281; a run reaches at most one of
  them) and in the \<^verbatim>\<open>finally\<close> of line 285. The \<^verbatim>\<open>close\<close> of the outer handler (line 291)
  has no field: the bare \<^verbatim>\<open>except\<close> around it makes its answer irrelevant.
  \<open>str_lower\<close> and \<open>parse_html\<close> are the library functions \<^verbatim>\<open>str.lower\<close> and
  \<^verbatim>\<open>BeautifulSoup(html, "html.parser")\<close>, the latter \<open>None\<close> when it raises.
\<close>

record world =
  enter_playwright :: outcome
  launch :: "nat \<Rightarrow> outcome"
  new_page :: outcome
  add_init_script :: outcome
  set_default_timeout_raises :: bool
  set_extra_http_headers :: outcome
  goto :: outcome
  sleep3 :: outcome
  wait_for_selector :: "nat \<Rightarrow> outcome"
  content_first :: outcome
  html_first :: string
  content_second :: outcome
  html_second :: string
  close_in_branch :: outcome
  close_in_finally :: outcome
  exit_playwright :: outcome
  str_lower :: "string \<Rightarrow> string"
  parse_html :: "string \<Rightarrow> soup option"

datatype action =
    EnsureBrowsers
  | EnterPlaywright
  | Launch nat
  | NewPage
  | AddInitScript
  | SetDefaultTimeout
  | SetHeaders
  | Goto string
  | Sleep
  | WaitForSelector nat
  | Content
  | CloseBrowser
  | ExitPlaywright

text \<open>
  The state of a run: the lines written to standard output, each represented by the JSON
  document it is the text of (\<^verbatim>\<open>print("[]")\<close> and \<^verbatim>\<open>print(json.dumps([]))\<close> both write
  the empty array), the external calls made so far, and whether the variable
  \<^verbatim>\<open>browser\<close> of line 106 holds a browser.
\<close>

record run_state =
  stdout :: "json list"
  actions :: "action list"
  browser :: bool

definition start :: run_state where
  "start = \<lparr>stdout = [], actions = [], browser = False\<rparr>"

definition act :: "action \<Rightarrow> run_state \<Rightarrow> run_state" where
  "act a s = s\<lparr>actions := actions s @ [a]\<rparr>"

definition print_line :: "json \<Rightarrow> run_state \<Rightarrow> run_state" where
  "print_line v s = s\<lparr>stdout := stdout s @ [v]\<rparr>"

text \<open>
  How a block of the coroutine ends: it falls through with a value, executes
  \<^verbatim>\<open>return\<close>, raises an \<^verbatim>\<open>Exception\<close>, or is unwound by \<^verbatim>\<open>CancelledError\<close>.
\<close>

datatype 'a flow = Next 'a | Return | Raise | Cancel

text \<open>\<^verbatim>\<open>await browser.close(); print(json.dumps([])); return\<close> of the failure branches.\<close>

definition close_and_give_up :: "world \<Rightarrow> run_state \<Rightarrow> string flow \<times> run_state" where
  "close_and_give_up w s =
     (let s1 = act CloseBrowser s
      in case close_in_branch w of
           Done \<Rightarrow> (Return, print_line (JList []) s1)
         | Cancelled \<Rightarrow> (Cancel, s1)
         | _ \<Rightarrow> (Raise, s1))"

text \<open>
  The \<^verbatim>\<open>finally\<close> of line 285, entered with the way the \<^verbatim>\<open>try\<close> statement is being
  left; an exception raised by the second \<^verbatim>\<open>close\<close> replaces it.
\<close>

definition finally_close :: "world \<Rightarrow> string flow \<Rightarrow> run_state \<Rightarrow> string flow \<times> run_state" where
  "finally_close w pending s =
     (let s1 = act CloseBrowser s
      in case close_in_finally w of
           Done \<Rightarrow> (pending, s1)
         | Cancelled \<Rightarrow> (Cancel, s1)
         | _ \<Rightarrow> (Raise, s1))"

text \<open>Lines 272--285.\<close>

definition fetch_again :: "world \<Rightarrow> run_state \<Rightarrow> string flow \<times> run_state" where
  "fetch_again w s =
     (let s1 = act Content s
      in case content_second w of
           Done \<Rightarrow> finally_close w (Next (html_second w)) s1
         | Cancelled \<Rightarrow> finally_close w Cancel s1
         | _ \<Rightarrow> (case close_and_give_up w s1 of (fl, s2) \<Rightarrow> finally_close w fl s2))"

text \<open>Lines 246--269.\<close>

definition fetch_and_validate :: "world \<Rightarrow> run_state \<Rightarrow> string flow \<times> run_state" where
  "fetch_and_validate w s =
     (let s1 = act Content s
      in case content_first w of
           Done \<Rightarrow> if page_rejected (str_lower w) (html_first w) then close_and_give_up w s1
                   else fetch_again w s1
         | Cancelled \<Rightarrow> (Cancel, s1)
         | _ \<Rightarrow> (Raise, s1))"

text \<open>
  Lines 225--240: \<open>n\<close> selectors remain, the next one has index \<open>i\<close>. A timeout or an
  error moves to the next selector; the flag the loop sets is only logged.
\<close>

fun wait_selectors :: "world \<Rightarrow> nat \<Rightarrow> nat \<Rightarrow> run_state \<Rightarrow> unit flow \<times> run_state" where
  "wait_selectors w 0 i s = (Next (), s)"
| "wait_selectors w (Suc n) i s =
     (let s1 = act (WaitForSelector i) s
      in case wait_for_selector w i of
           Done \<Rightarrow> (Next (), s1)
         | Cancelled \<Rightarrow> (Cancel, s1)
         | _ \<Rightarrow> wait_selectors w n (Suc i) s1)"

definition after_navigation :: "world \<Rightarrow> run_state \<Rightarrow> string flow \<times> run_state" where
  "after_navigation w s =
     (case wait_selectors w 5 0 s of
        (Next _, s1) \<Rightarrow> fetch_and_validate w s1
      | (Return, s1) \<Rightarrow> (Return, s1)
      | (Raise, s1) \<Rightarrow> (Raise, s1)
      | (Cancel, s1) \<Rightarrow> (Cancel, s1))"

text \<open>Lines 193--213; the three-second sleep is inside the \<^verbatim>\<open>try\<close>.\<close>

definition navigate :: "world \<Rightarrow> string \<Rightarrow> run_state \<Rightarrow> string flow \<times> run_state" where
  "navigate w url s =
     (let s1 = act (Goto url) s
      in case goto w of
           Done \<Rightarrow>
             (let s2 = act Sleep s1
              in case sleep3 w of
                   Done \<Rightarrow> after_navigation w s2
                 | Cancelled \<Rightarrow> (Cancel, s2)
                 | _ \<Rightarrow> close_and_give_up w s2)
         | Cancelled \<Rightarrow> (Cancel, s1)
         | _ \<Rightarrow> close_and_give_up w s1)"

text \<open>
  An awaited call that no \<^verbatim>\<open>try\<close> of its own surrounds: any exception goes to the outer
  handler.
\<close>

definition plain :: "outcome \<Rightarrow> unit flow" where
  "plain r = (case r of Done \<Rightarrow> Next () | Cancelled \<Rightarrow> Cancel | _ \<Rightarrow> Raise)"

text \<open>Lines 155--190, then the navigation.\<close>

definition with_browser :: "world \<Rightarrow> string \<Rightarrow> run_state \<Rightarrow> string flow \<times> run_state" where
  "with_browser w url s =
     (let s1 = act NewPage s
      in case plain (new_page w) of
           Next _ \<Rightarrow>
             (let s2 = act AddInitScript s1
              in case plain (add_init_script w) of
                   Next _ \<Rightarrow>
                     (let s3 = act SetDefaultTimeout s2
                      in if set_default_timeout_raises w then (Raise, s3)
                         else
                           (let s4 = act SetHeaders s3
                            in case plain (set_extra_http_headers w) of
                                 Next _ \<Rightarrow> navigate w url s4
                               | Return \<Rightarrow> (Return, s4)
                               | Raise \<Rightarrow> (Raise, s4)
                               | Cancel \<Rightarrow> (Cancel, s4)))
                 | Return \<Rightarrow> (Return, s2)
                 | Raise \<Rightarrow> (Raise, s2)
                 | Cancel \<Rightarrow> (Cancel, s2))
         | Return \<Rightarrow> (Return, s1)
         | Raise \<Rightarrow> (Raise, s1)
         | Cancel \<Rightarrow> (Cancel, s1))"

text \<open>
  Lines 134--151: \<open>n\<close> launch configurations remain, the next one has index \<open>i\<close>. A
  completed launch sets \<^verbatim>\<open>browser\<close> and ends the loop. A timeout always continues; an
  error on the last configuration raises.
\<close>

fun launch_from :: "world \<Rightarrow> nat \<Rightarrow> nat \<Rightarrow> run_state \<Rightarrow> unit flow \<times> run_state" where
  "launch_from w 0 i s = (Next (), s)"
| "launch_from w (Suc n) i s =
     (let s1 = act (Launch i) s
      in case launch w i of
           Done \<Rightarrow> (Next (), s1\<lparr>browser := True\<rparr>)
         | TimedOut \<Rightarrow> launch_from w n (Suc i) s1
         | Failed \<Rightarrow> if n = 0 then (Raise, s1) else launch_from w n (Suc i) s1
         | Cancelled \<Rightarrow> (Cancel, s1))"

text \<open>
  The body of the \<^verbatim>\<open>async with\<close> block, lines 109--285; line 152 raises when no
  configuration gave a browser.
\<close>

definition playwright_body :: "world \<Rightarrow> string \<Rightarrow> run_state \<Rightarrow> string flow \<times> run_state" where
  "playwright_body w url s =
     (case launch_from w 3 0 s of
        (Next _, s1) \<Rightarrow> if browser s1 then with_browser w url s1 else (Raise, s1)
      | (Return, s1) \<Rightarrow> (Return, s1)
      | (Raise, s1) \<Rightarrow> (Raise, s1)
      | (Cancel, s1) \<Rightarrow> (Cancel, s1))"

text \<open>Leaving the \<^verbatim>\<open>async with\<close> block runs the exit of the Playwright context.\<close>

definition leave_playwright :: "world \<Rightarrow> string flow \<Rightarrow> run_state \<Rightarrow> string flow \<times> run_state" where
  "leave_playwright w pending s =
     (let s1 = act ExitPlaywright s
      in case exit_playwright w of
           Done \<Rightarrow> (pending, s1)
         | Cancelled \<Rightarrow> (Cancel, s1)
         | _ \<Rightarrow> (Raise, s1))"

text \<open>
  Lines 287--295, the handler of the outer \<^verbatim>\<open>try\<close>: whatever the \<^verbatim>\<open>close\<close> does is
  swallowed by the bare \<^verbatim>\<open>except\<close>.
\<close>

definition outer_handler :: "run_state \<Rightarrow> string flow \<times> run_state" where
  "outer_handler s =
     (Return, print_line (JList []) (if browser s then act CloseBrowser s else s))"

text \<open>Lines 106--295.\<close>

definition browse :: "world \<Rightarrow> string \<Rightarrow> run_state \<Rightarrow> string flow \<times> run_state" where
  "browse w url s =
     (let s0 = act EnterPlaywright s
      in case enter_playwright w of
           Done \<Rightarrow>
             (case playwright_body w url s0 of
                (pending, s1) \<Rightarrow>
                  (case leave_playwright w pending s1 of
                     (Raise, s2) \<Rightarrow> outer_handler s2
                   | (fl, s2) \<Rightarrow> (fl, s2)))
         | Cancelled \<Rightarrow> (Cancel, s0)
         | _ \<Rightarrow> outer_handler s0)"

text \<open>Lines 297--399: parsing, selection, extraction and the single print.\<close>

definition emit :: "pylib \<Rightarrow> world \<Rightarrow> query \<Rightarrow> string \<Rightarrow> run_state \<Rightarrow> run_state" where
  "emit lib w q html s =
     (case parse_html w html of
        None \<Rightarrow> print_line (JList []) s
      | Some doc \<Rightarrow>
          (let eventos = JList (map event_json (eventos_of lib q (select_events doc)))
           in if dumps_ok lib eventos then print_line eventos s
              else print_line (JList []) s))"

text \<open>The coroutine \<^verbatim>\<open>scrape_songkick_events\<close>, lines 57--399.\<close>

definition scrape_songkick_events :: "pylib \<Rightarrow> world \<Rightarrow> string list \<Rightarrow> unit flow \<times> run_state" where
  "scrape_songkick_events lib w argv =
     (case parse_args lib argv of
        TooFew \<Rightarrow> (Return, print_line (JList []) start)
      | NotAFloat \<Rightarrow> (Return, print_line (JList []) start)
      | Parsed q \<Rightarrow>
          (case browse w (resolve_url lib q) (act EnsureBrowsers start) of
             (Next html, s) \<Rightarrow> (Return, emit lib w q html s)
           | (Return, s) \<Rightarrow> (Return, s)
           | (Raise, s) \<Rightarrow> (Raise, s)
           | (Cancel, s) \<Rightarrow> (Cancel, s)))"

text \<open>
  Lines 402--414: a cancelled coroutine makes \<^verbatim>\<open>wait_for\<close> raise
  \<^verbatim>\<open>asyncio.TimeoutError\<close>, and both handlers print the empty array.
\<close>

definition main :: "pylib \<Rightarrow> world \<Rightarrow> string list \<Rightarrow> run_state" where
  "main lib w argv =
     (case scrape_songkick_events lib w argv of
        (Cancel, s) \<Rightarrow> print_line (JList []) s
      | (Raise, s) \<Rightarrow> print_line (JList []) s
      | (_, s) \<Rightarrow> s)"

section \<open>Predicates on runs\<close>

fun is_array :: "json \<Rightarrow> bool" where
  "is_array (JList _) = True"
| "is_array _ = False"

text \<open>
  A block that works with the browser has called \<^verbatim>\<open>browser.close()\<close> unless it is left by
  an exception.
\<close>

definition closed_or_raised :: "string flow \<times> run_state \<Rightarrow> bool" where
  "closed_or_raised r \<longleftrightarrow>
     fst r = Raise \<or> fst r = Cancel \<or> CloseBrowser \<in> set (actions (snd r))"

text \<open>
  What a block inside the \<^verbatim>\<open>async with\<close> has printed: nothing when it falls through,
  the empty array when it returns; when it is left by an exception it has printed nothing,
  or the empty array if the \<^verbatim>\<open>close\<close> of the \<^verbatim>\<open>finally\<close> clause did not complete.
\<close>

definition stage_out :: "world \<Rightarrow> run_state \<Rightarrow> 'a flow \<times> run_state \<Rightarrow> bool" where
  "stage_out w s r \<longleftrightarrow>
     (case fst r of
        Next _ \<Rightarrow> stdout (snd r) = stdout s
      | Return \<Rightarrow> stdout (snd r) = stdout s @ [JList []]
      | _ \<Rightarrow> stdout (snd r) = stdout s \<or>
             (close_in_finally w \<noteq> Done \<and> stdout (snd r) = stdout s @ [JList []]))"

text \<open>What the outer \<^verbatim>\<open>try\<close> statement has printed when control leaves it.\<close>

definition browse_out :: "world \<Rightarrow> run_state \<Rightarrow> string flow \<times> run_state \<Rightarrow> bool" where
  "browse_out w s r \<longleftrightarrow>
     (case fst r of
        Next _ \<Rightarrow> stdout (snd r) = stdout s
      | Return \<Rightarrow> stdout (snd r) = stdout s @ [JList []] \<or>
                  ((close_in_finally w \<noteq> Done \<or> exit_playwright w \<noteq> Done) \<and>
                   stdout (snd r) = stdout s @ [JList [], JList []])
      | Cancel \<Rightarrow> stdout (snd r) = stdout s \<or>
                  ((close_in_finally w \<noteq> Done \<or> exit_playwright w \<noteq> Done) \<and>
                   stdout (snd r) = stdout s @ [JList []])
      | Raise \<Rightarrow> False)"

section \<open>Example inputs\<close>

text \<open>
  Stand-ins for the libraries, used to run the model on examples. The distance stand-in
  answers 25 km for any pair of finite numbers and raises on anything else, as geopy does
  when \<^verbatim>\<open>float()\<close> rejects a coordinate.
\<close>

definition stub_lib :: pylib where
  "stub_lib =
     \<lparr>parse_float = map_of [(''32.5'', Fin 32.5), (''-117.0'', Fin (- 117)),
                             (''20'', Fin 20), (''30'', Fin 30), (''nan'', NaN)],
      float_str = (\<lambda>x. case map_of [(Fin 48.8, ''48.8''), (Fin 2.3, ''2.3''), (Fin 10, ''10.0''),
                                      (Fin 0, ''0.0''), (Fin 5, ''5.0'')] x of
                          Some t \<Rightarrow> t
                        | None \<Rightarrow> ''?''),
      geodesic_km = (\<lambda>p c. case c of
                         (JNum (Fin la), JNum (Fin lo)) \<Rightarrow> Some (Fin 25)
                       | _ \<Rightarrow> None),
      dumps_ok = (\<lambda>v. True)\<rparr>"

definition geo_payload :: "json \<Rightarrow> json \<Rightarrow> ld_block" where
  "geo_payload la lo =
     Payload (JDict [(''@type'', JStr ''MusicEvent''),
                     (''location'',
                      JDict [(''geo'', JDict [(''latitude'', la), (''longitude'', lo)])])])"

definition sample_listing :: listing where
  "sample_listing =
     \<lparr>time_datetime = Some ''2024-06-01T20:00:00-0700'', title_attr = None,
      strong_text = Some ''Los Tigres'', venue_text = None,
      event_href = Some ''/concerts/123'',
      ld = geo_payload (JNum (Fin 32.7)) (JNum (Fin (- 117.1)))\<rparr>"

definition sample_event :: event where
  "sample_event =
     \<lparr>nombre = ''Los Tigres'', fecha = ''2024-06-01'', lugar = [],
      enlace = ''https://www.songkick.com/concerts/123'',
      latitude = JNum (Fin 32.7), longitude = JNum (Fin (- 117.1)),
      distance_km = Fin 25\<rparr>"

definition tijuana_query :: "pyfloat \<Rightarrow> query" where
  "tijuana_query r = \<lparr>hotel_lat = Fin 32.5, hotel_lon = Fin (- 117), radius_km = r\<rparr>"

definition argv_tijuana :: "string list" where
  "argv_tijuana = [''scrape_songkick.py'', ''32.5'', ''-117.0'', ''30'']"

text \<open>A stand-in for \<^verbatim>\<open>str.lower\<close> that maps the letters A to Z and nothing else.\<close>

definition ascii_lower :: "string \<Rightarrow> string" where
  "ascii_lower t =
     map (\<lambda>c. case map_of (zip ''ABCDEFGHIJKLMNOPQRSTUVWXYZ'' ''abcdefghijklmnopqrstuvwxyz'') c of
                Some d \<Rightarrow> d
              | None \<Rightarrow> c) t"

definition plain_page :: string where
  "plain_page = replicate 1200 (CHR ''x'')"

definition sample_soup :: soup where
  "sample_soup =
     \<lparr>find_all = (\<lambda>sel. if sel = (''div'', ''data-testid'', ''event-item'')
                          then [sample_listing] else []),
      find_generic = []\<rparr>"

definition empty_soup :: soup where
  "empty_soup = \<lparr>find_all = (\<lambda>sel. []), find_generic = []\<rparr>"

text \<open>A world in which every call completes and the page holds the sample listing.\<close>

definition calm_world :: world where
  "calm_world =
     \<lparr>enter_playwright = Done, launch = (\<lambda>i. Done), new_page = Done, add_init_script = Done,
      set_default_timeout_raises = False, set_extra_http_headers = Done, goto = Done,
      sleep3 = Done, wait_for_selector = (\<lambda>i. Done), content_first = Done,
      html_first = plain_page, content_second = Done, html_second = plain_page,
      close_in_branch = Done, close_in_finally = Done,
      exit_playwright = Done, str_lower = ascii_lower,
      parse_html = (\<lambda>h. Some sample_soup)\<rparr>"

section \<open>Evaluating the examples\<close>

lemma argv_tijuana_parsed: "parse_args stub_lib argv_tijuana = Parsed (tijuana_query (Fin 30))"
  by (simp add: parse_args_def stub_lib_def argv_tijuana_def tijuana_query_def)

lemma tijuana_query_url: "resolve_url lib (tijuana_query r) = URL_TIJUANA"
  by (simp add: resolve_url_def tijuana_query_def in_mexico_def flt_def)

lemma coords_of_geo_payload: "coords_of (geo_payload la lo) = (la, lo)"
  by (simp add: geo_payload_def coords_of_def geo_coords_def first_if_list_def py_get_def)

lemma sample_listing_emitted:
  "r = Fin 30 \<or> r = NaN \<Longrightarrow>
     process_element stub_lib (tijuana_query r) sample_listing = Emitted sample_event"
  by (auto simp: process_element_def sample_listing_def coords_of_geo_payload tijuana_query_def
      stub_lib_def nombre_of_def fecha_of_def raw_fecha_def lugar_of_def enlace_of_def
      BASE_URL_def round_half_even_def sample_event_def)

lemma sample_listing_too_far:
  "process_element stub_lib (tijuana_query (Fin 20)) sample_listing = TooFar"
  by (simp add: process_element_def sample_listing_def coords_of_geo_payload tijuana_query_def
      stub_lib_def)

lemma contains_replicate:
  "c \<in> set needle \<Longrightarrow> c \<noteq> x \<Longrightarrow> \<not> contains needle (replicate n x)"
proof (induction n)
  case 0
  then show ?case by auto
next
  case (Suc n)
  have "\<not> prefix needle (replicate (Suc n) x)"
  proof
    assume "prefix needle (replicate (Suc n) x)"
    then have "set needle \<subseteq> set (replicate (Suc n) x)"
      by (rule set_mono_prefix)
    then show False using Suc.prems by auto
  qed
  then show ?case using Suc by simp
qed

lemma plain_page_accepted: "\<not> page_rejected ascii_lower plain_page"
proof -
  have l: "ascii_lower plain_page = plain_page"
    by (simp add: ascii_lower_def plain_page_def)
  have "\<not> contains p plain_page" if "p \<in> set contenido_bloqueado" for p
  proof -
    from that have "CHR ''c'' \<in> set p \<or> CHR ''o'' \<in> set p"
      by (auto simp: contenido_bloqueado_def)
    then show ?thesis
      unfolding plain_page_def using contains_replicate [of _ p "CHR ''x''" 1200] by auto
  qed
  moreover have "\<not> length plain_page < 1000"
    by (simp add: plain_page_def)
  ultimately show ?thesis
    unfolding page_rejected_def l list_ex_iff by blast
qed

lemma select_events_sample: "select_events sample_soup = [sample_listing]"
  by (simp add: select_events_def selectores_html_def sample_soup_def)

text \<open>
  The run in which nothing fails: one line with the sample record, and the browser closed
  by the \<^verbatim>\<open>finally\<close> clause.
\<close>

lemma calm_run:
  "main stub_lib calm_world argv_tijuana =
     \<lparr>stdout = [JList [event_json sample_event]],
      actions = [EnsureBrowsers, EnterPlaywright, Launch 0, NewPage, AddInitScript,
                 SetDefaultTimeout, SetHeaders, Goto URL_TIJUANA, Sleep, WaitForSelector 0,
                 Content, Content, CloseBrowser, ExitPlaywright],
      browser = True\<rparr>"
proof -
  have w: "enter_playwright calm_world = Done" "launch calm_world 0 = Done"
    "new_page calm_world = Done" "add_init_script calm_world = Done"
    "\<not> set_default_timeout_raises calm_world" "set_extra_http_headers calm_world = Done"
    "goto calm_world = Done" "sleep3 calm_world = Done" "wait_for_selector calm_world 0 = Done"
    "content_first calm_world = Done" "html_first calm_world = plain_page"
    "content_second calm_world = Done" "html_second calm_world = plain_page"
    "close_in_finally calm_world = Done" "exit_playwright calm_world = Done"
    "str_lower calm_world = ascii_lower"
    "parse_html calm_world plain_page = Some sample_soup"
    by (simp_all add: calm_world_def)
  have ok: "dumps_ok stub_lib v" for v
    by (simp add: stub_lib_def)
  show ?thesis
    by (simp add: main_def scrape_songkick_events_def argv_tijuana_parsed tijuana_query_url
        browse_def playwright_body_def with_browser_def plain_def navigate_def
        after_navigation_def fetch_and_validate_def fetch_again_def finally_close_def
        leave_playwright_def emit_def select_events_sample sample_listing_emitted ok w
        plain_page_accepted
        act_def print_line_def start_def eval_nat_numeral)
qed

text \<open>The run in which the navigation times out.\<close>

lemma goto_timeout_run:
  "scrape_songkick_events stub_lib (calm_world\<lparr>goto := TimedOut\<rparr>) argv_tijuana =
     (Return,
      \<lparr>stdout = [JList []],
       actions = [EnsureBrowsers, EnterPlaywright, Launch 0, NewPage, AddInitScript,
                  SetDefaultTimeout, SetHeaders, Goto URL_TIJUANA, CloseBrowser, ExitPlaywright],
       browser = True\<rparr>)"
  by (simp add: scrape_songkick_events_def argv_tijuana_parsed tijuana_query_url
      browse_def playwright_body_def with_browser_def plain_def navigate_def
      close_and_give_up_def leave_playwright_def calm_world_def
      act_def print_line_def start_def eval_nat_numeral)

section \<open>Rounding and float comparison\<close>

lemma round_half_even_near: "\<bar>of_int (round_half_even z) - z\<bar> \<le> 1 / 2"
proof -
  have lo: "of_int \<lfloor>z\<rfloor> \<le> z" and hi: "z < of_int \<lfloor>z\<rfloor> + 1"
    by linarith+
  show ?thesis
  proof (cases "z - of_int \<lfloor>z\<rfloor> < 1 / 2")
    case True
    then show ?thesis using lo by (simp add: round_half_even_def Let_def)
  next
    case False
    note nlt = this
    show ?thesis
    proof (cases "1 / 2 < z - of_int \<lfloor>z\<rfloor>")
      case True
      then show ?thesis using nlt hi by (simp add: round_half_even_def Let_def)
    next
      case False
      then have "z - of_int \<lfloor>z\<rfloor> = 1 / 2" using nlt by linarith
      then show ?thesis by (simp add: round_half_even_def Let_def)
    qed
  qed
qed

lemma py_round2_near:
  assumes "py_round2 (Fin x) = Fin y"
  shows "\<bar>y - x\<bar> \<le> 1 / 200"
proof -
  have y: "y * 100 = of_int (round_half_even (x * 100))"
    using assms by simp
  have "\<bar>y * 100 - x * 100\<bar> \<le> 1 / 2"
    using round_half_even_near [of "x * 100"] y by simp
  then show ?thesis by linarith
qed

lemma not_fgt_fle: "a \<noteq> NaN \<Longrightarrow> b \<noteq> NaN \<Longrightarrow> \<not> fgt a b \<Longrightarrow> fle a b"
  by (cases a; cases b) simp_all

section \<open>The extraction loop\<close>

lemma eventos_of_append:
  "eventos_of lib q (xs @ ys) = eventos_of lib q xs @ eventos_of lib q ys"
  by (induction xs) (auto split: element_result.splits)

lemma eventos_of_origin:
  "e \<in> set (eventos_of lib q lis) \<Longrightarrow> \<exists>li \<in> set lis. process_element lib q li = Emitted e"
  by (induction lis) (auto split: element_result.splits)

lemma emit_one_line: "\<exists>xs. stdout (emit lib w q html s) = stdout s @ [JList xs]"
  by (simp add: emit_def print_line_def Let_def split: option.splits)

lemma emit_keeps:
  "actions (emit lib w q html s) = actions s \<and> browser (emit lib w q html s) = browser s"
  by (simp add: emit_def print_line_def Let_def split: option.splits)

lemma cascade_first:
  "\<forall>p \<in> set pre. find_all doc p = [] \<Longrightarrow> find_all doc sel \<noteq> [] \<Longrightarrow>
     cascade doc (pre @ sel # post) = find_all doc sel"
  by (induction pre) (auto simp: Let_def)

lemma cascade_none:
  "\<forall>p \<in> set sels. find_all doc p = [] \<Longrightarrow> cascade doc sels = []"
  by (induction sels) (auto simp: Let_def)

section \<open>Closing the browser\<close>

lemma close_and_give_up_closes:
  "CloseBrowser \<in> set (actions (snd (close_and_give_up w s))) \<and>
   browser (snd (close_and_give_up w s)) = browser s"
  by (simp add: close_and_give_up_def act_def print_line_def Let_def split: outcome.splits)

lemma finally_close_closes:
  "CloseBrowser \<in> set (actions (snd (finally_close w fl s))) \<and>
   browser (snd (finally_close w fl s)) = browser s"
  by (simp add: finally_close_def act_def Let_def split: outcome.splits)

lemma fetch_again_closes:
  "CloseBrowser \<in> set (actions (snd (fetch_again w s))) \<and>
   browser (snd (fetch_again w s)) = browser s"
  using close_and_give_up_closes [of w "act Content s"]
  by (simp add: fetch_again_def finally_close_closes Let_def split: outcome.splits prod.splits)
     (auto simp: act_def)

lemma fetch_and_validate_closes:
  "closed_or_raised (fetch_and_validate w s) \<and>
   browser (snd (fetch_and_validate w s)) = browser s"
  using close_and_give_up_closes [of w "act Content s"] fetch_again_closes [of w "act Content s"]
  by (auto simp: fetch_and_validate_def closed_or_raised_def act_def Let_def
      split: outcome.splits)

lemma wait_selectors_keeps:
  "browser (snd (wait_selectors w n i s)) = browser s \<and>
   stdout (snd (wait_selectors w n i s)) = stdout s"
  by (induction n arbitrary: i s) (auto simp: act_def Let_def split: outcome.splits)

lemma wait_selectors_flow:
  "fst (wait_selectors w n i s) = Next () \<or> fst (wait_selectors w n i s) = Cancel"
  by (induction n arbitrary: i s) (auto simp: Let_def split: outcome.splits)

lemma after_navigation_closes:
  "closed_or_raised (after_navigation w s) \<and>
   browser (snd (after_navigation w s)) = browser s"
proof (cases "wait_selectors w 5 0 s")
  case (Pair fl s1)
  then have b: "browser s1 = browser s"
    using wait_selectors_keeps [of w 5 0 s] by simp
  show ?thesis
    using Pair b fetch_and_validate_closes [of w s1] wait_selectors_flow [of w 5 0 s]
    by (cases fl) (auto simp: after_navigation_def closed_or_raised_def)
qed

lemma navigate_closes:
  "closed_or_raised (navigate w url s) \<and> browser (snd (navigate w url s)) = browser s"
  using close_and_give_up_closes [of w "act (Goto url) s"]
    close_and_give_up_closes [of w "act Sleep (act (Goto url) s)"]
    after_navigation_closes [of w "act Sleep (act (Goto url) s)"]
  by (auto simp: navigate_def closed_or_raised_def act_def Let_def split: outcome.splits)

lemma with_browser_closes:
  "closed_or_raised (with_browser w url s) \<and>
   browser (snd (with_browser w url s)) = browser s"
  using navigate_closes
    [of w url "act SetHeaders (act SetDefaultTimeout (act AddInitScript (act NewPage s)))"]
  by (auto simp: with_browser_def closed_or_raised_def plain_def act_def Let_def
      split: outcome.splits flow.splits)

lemma launch_from_browser:
  "launch_from w n i s = (fl, s') \<Longrightarrow> fl \<noteq> Next () \<Longrightarrow> browser s' = browser s"
  by (induction n arbitrary: i s) (auto simp: act_def Let_def split: outcome.splits if_splits)

lemma launch_from_keeps:
  "stdout (snd (launch_from w n i s)) = stdout s \<and> fst (launch_from w n i s) \<noteq> Return"
  by (induction n arbitrary: i s) (auto simp: act_def Let_def split: outcome.splits)

lemma playwright_body_closes:
  assumes "\<not> browser s"
  shows "browser (snd (playwright_body w url s)) \<longrightarrow> closed_or_raised (playwright_body w url s)"
proof (cases "launch_from w 3 0 s")
  case (Pair fl s1)
  show ?thesis
  proof (cases "fl = Next ()")
    case True
    then show ?thesis
      using Pair with_browser_closes [of w url s1]
      by (auto simp: playwright_body_def)
  next
    case False
    then have "browser s1 = browser s"
      using Pair launch_from_browser by blast
    then show ?thesis
      using Pair False assms launch_from_keeps [of w 3 0 s]
      by (cases fl) (auto simp: playwright_body_def)
  qed
qed

lemma browse_closes:
  assumes "\<not> browser s" and "browse w url s = (fl, s')" and "browser s'" and "fl \<noteq> Cancel"
  shows "CloseBrowser \<in> set (actions s')"
proof (cases "enter_playwright w = Done")
  case False
  then show ?thesis
    using assms
    by (auto simp: browse_def outer_handler_def act_def print_line_def Let_def
        split: outcome.splits)
next
  case True
  obtain p s1 where body: "playwright_body w url (act EnterPlaywright s) = (p, s1)"
    by (cases "playwright_body w url (act EnterPlaywright s)")
  have nb: "\<not> browser (act EnterPlaywright s)"
    using assms(1) by (simp add: act_def)
  have c1: "browser s1 \<longrightarrow> closed_or_raised (p, s1)"
    using playwright_body_closes [OF nb, of w url] body by simp
  show ?thesis
    using assms(2-4) True body c1
    by (auto simp: browse_def leave_playwright_def outer_handler_def act_def print_line_def
        Let_def closed_or_raised_def split: outcome.splits flow.splits prod.splits if_splits)
qed

section \<open>Lines on standard output\<close>

lemma close_and_give_up_out: "stage_out w s (close_and_give_up w s)"
  by (simp add: stage_out_def close_and_give_up_def act_def print_line_def Let_def
      split: outcome.splits)

lemma fetch_again_out: "stage_out w s (fetch_again w s)"
  by (simp add: stage_out_def fetch_again_def close_and_give_up_def finally_close_def act_def
      print_line_def Let_def split: outcome.splits)

lemma fetch_and_validate_out: "stage_out w s (fetch_and_validate w s)"
  using close_and_give_up_out [of w "act Content s"] fetch_again_out [of w "act Content s"]
  by (auto simp: stage_out_def fetch_and_validate_def act_def Let_def
      split: outcome.splits flow.splits)

lemma after_navigation_out: "stage_out w s (after_navigation w s)"
proof (cases "wait_selectors w 5 0 s")
  case (Pair fl s1)
  then have b: "stdout s1 = stdout s"
    using wait_selectors_keeps [of w 5 0 s] by simp
  show ?thesis
    using Pair b fetch_and_validate_out [of w s1] wait_selectors_flow [of w 5 0 s]
    by (cases fl) (auto simp: after_navigation_def stage_out_def split: flow.splits)
qed

lemma navigate_out: "stage_out w s (navigate w url s)"
  using close_and_give_up_out [of w "act (Goto url) s"]
    close_and_give_up_out [of w "act Sleep (act (Goto url) s)"]
    after_navigation_out [of w "act Sleep (act (Goto url) s)"]
  by (auto simp: navigate_def stage_out_def act_def Let_def split: outcome.splits flow.splits)

lemma with_browser_out: "stage_out w s (with_browser w url s)"
  using navigate_out
    [of w "act SetHeaders (act SetDefaultTimeout (act AddInitScript (act NewPage s)))" url]
  by (auto simp: with_browser_def stage_out_def plain_def act_def Let_def
      split: outcome.splits flow.splits)

lemma playwright_body_out: "stage_out w s (playwright_body w url s)"
proof (cases "launch_from w 3 0 s")
  case (Pair fl s1)
  then have b: "stdout s1 = stdout s" "fl \<noteq> Return"
    using launch_from_keeps [of w 3 0 s] by simp_all
  show ?thesis
    using Pair b with_browser_out [of w s1 url]
    by (cases fl) (auto simp: playwright_body_def stage_out_def split: flow.splits)
qed

lemma browse_prints: "browse_out w s (browse w url s)"
proof (cases "enter_playwright w = Done")
  case False
  then show ?thesis
    by (auto simp: browse_out_def browse_def outer_handler_def act_def print_line_def Let_def
        split: outcome.splits)
next
  case True
  obtain p s1 where body: "playwright_body w url (act EnterPlaywright s) = (p, s1)"
    by (cases "playwright_body w url (act EnterPlaywright s)")
  have "stage_out w (act EnterPlaywright s) (p, s1)"
    using playwright_body_out [of w "act EnterPlaywright s" url] body by simp
  then show ?thesis
    using True body
    by (cases p; cases "exit_playwright w")
       (auto simp: browse_out_def browse_def leave_playwright_def outer_handler_def act_def
        print_line_def Let_def stage_out_def)
qed

text \<open>
  Every run prints one or two lines, each of them a JSON array, and exactly one line when
  the \<^verbatim>\<open>close\<close> of the \<^verbatim>\<open>finally\<close> clause and the exit of the Playwright context complete.
\<close>

lemma stdout_lines:
  "(length (stdout (main lib w argv)) = 1 \<or> length (stdout (main lib w argv)) = 2) \<and>
   list_all is_array (stdout (main lib w argv)) \<and>
   (close_in_finally w = Done \<and> exit_playwright w = Done \<longrightarrow>
      length (stdout (main lib w argv)) = 1)"
proof (cases "parse_args lib argv")
  case TooFew
  then show ?thesis by (simp add: main_def scrape_songkick_events_def print_line_def start_def)
next
  case NotAFloat
  then show ?thesis by (simp add: main_def scrape_songkick_events_def print_line_def start_def)
next
  case (Parsed q)
  obtain fl s where br: "browse w (resolve_url lib q) (act EnsureBrowsers start) = (fl, s)"
    by (cases "browse w (resolve_url lib q) (act EnsureBrowsers start)")
  have inv: "browse_out w (act EnsureBrowsers start) (fl, s)"
    using browse_prints [of w "act EnsureBrowsers start" "resolve_url lib q"] br by simp
  show ?thesis
  proof (cases fl)
    case (Next h)
    obtain xs where "stdout (emit lib w q h s) = stdout s @ [JList xs]"
      using emit_one_line by blast
    then show ?thesis
      using Parsed br Next inv
      by (simp add: main_def scrape_songkick_events_def browse_out_def act_def start_def)
  next
    case Return
    then show ?thesis
      using Parsed br inv
      by (auto simp: main_def scrape_songkick_events_def browse_out_def act_def start_def)
  next
    case Raise
    then show ?thesis using inv by (simp add: browse_out_def)
  next
    case Cancel
    then show ?thesis
      using Parsed br inv
      by (auto simp: main_def scrape_songkick_events_def browse_out_def act_def start_def
          print_line_def)
  qed
qed

section \<open>Standard output of a run\<close>

text \<open>
  Claim C1 says that every run, whatever step fails and also when the global deadline
  expires, writes exactly one line to standard output, and that this line is a JSON array.
  The run below contradicts it: the navigation times out, the failure branch closes the
  browser, prints \<^verbatim>\<open>[]\<close> and returns (lines 204--208); the deadline of line 405 then
  expires while the \<^verbatim>\<open>async with\<close> block is being left, the coroutine ends with
  \<^verbatim>\<open>CancelledError\<close>, and the handler of line 406 prints \<^verbatim>\<open>[]\<close> a second time.
\<close>

theorem deadline_during_exit_prints_twice:
  "main stub_lib (calm_world\<lparr>goto := TimedOut, exit_playwright := Cancelled\<rparr>) argv_tijuana =
     \<lparr>stdout = [JList [], JList []],
      actions = [EnsureBrowsers, EnterPlaywright, Launch 0, NewPage, AddInitScript,
                 SetDefaultTimeout, SetHeaders, Goto URL_TIJUANA, CloseBrowser, ExitPlaywright],
      browser = True\<rparr>"
  by (simp add: main_def scrape_songkick_events_def argv_tijuana_parsed tijuana_query_url
      browse_def playwright_body_def with_browser_def plain_def navigate_def
      close_and_give_up_def leave_playwright_def calm_world_def
      act_def print_line_def start_def eval_nat_numeral)

section \<open>Target URL resolution\<close>

text \<open>
  Claim C2 as stated says that every query outside the Mexico box resolves to the
  coordinate-search URL. The query \<open>(0.0, 10.0, 5.0)\<close> is outside the box and resolves to
  the Tijuana URL, because line 77 tests the coordinates for truth first.
\<close>

theorem zero_latitude_outside_box_gets_tijuana:
  "\<not> in_mexico (Fin 0) (Fin 10) \<and>
   resolve_url stub_lib \<lparr>hotel_lat = Fin 0, hotel_lon = Fin 10, radius_km = Fin 5\<rparr> =
     ''https://www.songkick.com/es/metro-areas/31097-mexico-tijuana'' \<and>
   search_url stub_lib (Fin 0) (Fin 10) (Fin 5) =
     ''https://www.songkick.com/search?query=&location=0.0,10.0&radius=5.0''"
  by (simp add: resolve_url_def in_mexico_def flt_def URL_TIJUANA_def search_url_def
      stub_lib_def)

text \<open>
  Claim C2, amended: the URL is a function of the query alone. For a query with both
  coordinates strictly inside the box \<open>19 < lat < 33\<close>, \<open>-118 < lon < -86\<close> it is chosen by
  the latitude bands tested top-down (above 32 Tijuana, else above 25 Monterrey, else
  above 20 Guadalajara, else Mexico City). For a query outside the box whose latitude and
  longitude are both different from zero it is the coordinate-search URL with the texts of
  latitude, longitude and radius. \<open>(32.5, -117.0, 20)\<close> gives the Tijuana URL,
  \<open>(19.4, -99.1, 15)\<close> the Mexico City URL, and \<open>(48.8, 2.3, 10)\<close> the search URL holding
  the texts of 48.8 and 2.3.
\<close>

theorem url_resolution:
  "(in_mexico (hotel_lat q) (hotel_lon q) \<longrightarrow>
      resolve_url lib q =
        (if fgt (hotel_lat q) (Fin 32) then URL_TIJUANA
         else if fgt (hotel_lat q) (Fin 25) then URL_MONTERREY
         else if fgt (hotel_lat q) (Fin 20) then URL_GUADALAJARA
         else URL_MEXICO_CITY)) \<and>
   (\<not> in_mexico (hotel_lat q) (hotel_lon q) \<and> truthy (hotel_lat q) \<and> truthy (hotel_lon q) \<longrightarrow>
      resolve_url lib q = search_url lib (hotel_lat q) (hotel_lon q) (radius_km q)) \<and>
   resolve_url lib \<lparr>hotel_lat = Fin 32.5, hotel_lon = Fin (- 117), radius_km = Fin 20\<rparr> =
     URL_TIJUANA \<and>
   resolve_url lib \<lparr>hotel_lat = Fin 19.4, hotel_lon = Fin (- 99.1), radius_km = Fin 15\<rparr> =
     URL_MEXICO_CITY \<and>
   resolve_url lib \<lparr>hotel_lat = Fin 48.8, hotel_lon = Fin 2.3, radius_km = Fin 10\<rparr> =
     ''https://www.songkick.com/search?query=&location='' @ float_str lib (Fin 48.8) @ '','' @
     float_str lib (Fin 2.3) @ ''&radius='' @ float_str lib (Fin 10)"
proof -
  have nz: "in_mexico la lo \<Longrightarrow> truthy la \<and> truthy lo" for la lo
    by (cases la; cases lo) (auto simp: in_mexico_def flt_def)
  have general: "(in_mexico (hotel_lat q) (hotel_lon q) \<longrightarrow>
      resolve_url lib q =
        (if fgt (hotel_lat q) (Fin 32) then URL_TIJUANA
         else if fgt (hotel_lat q) (Fin 25) then URL_MONTERREY
         else if fgt (hotel_lat q) (Fin 20) then URL_GUADALAJARA
         else URL_MEXICO_CITY)) \<and>
   (\<not> in_mexico (hotel_lat q) (hotel_lon q) \<and> truthy (hotel_lat q) \<and> truthy (hotel_lon q) \<longrightarrow>
      resolve_url lib q = search_url lib (hotel_lat q) (hotel_lon q) (radius_km q))"
    using nz [of "hotel_lat q" "hotel_lon q"] by (auto simp: resolve_url_def)
  have scenarios:
    "resolve_url lib \<lparr>hotel_lat = Fin 32.5, hotel_lon = Fin (- 117), radius_km = Fin 20\<rparr> =
       URL_TIJUANA"
    "resolve_url lib \<lparr>hotel_lat = Fin 19.4, hotel_lon = Fin (- 99.1), radius_km = Fin 15\<rparr> =
       URL_MEXICO_CITY"
    "resolve_url lib \<lparr>hotel_lat = Fin 48.8, hotel_lon = Fin 2.3, radius_km = Fin 10\<rparr> =
       ''https://www.songkick.com/search?query=&location='' @ float_str lib (Fin 48.8) @ '','' @
       float_str lib (Fin 2.3) @ ''&radius='' @ float_str lib (Fin 10)"
    by (simp_all add: resolve_url_def in_mexico_def flt_def search_url_def)
  show ?thesis using general scenarios by blast
qed

theorem url_resolution_witness:
  "resolve_url stub_lib \<lparr>hotel_lat = Fin 26, hotel_lon = Fin (- 100), radius_km = Fin 10\<rparr> =
     URL_MONTERREY \<and>
   resolve_url stub_lib \<lparr>hotel_lat = Fin 48.8, hotel_lon = Fin 2.3, radius_km = Fin 10\<rparr> =
     ''https://www.songkick.com/search?query=&location=48.8,2.3&radius=10.0''"
  using url_resolution
      [of "\<lparr>hotel_lat = Fin 26, hotel_lon = Fin (- 100), radius_km = Fin 10\<rparr>" stub_lib]
    url_resolution
      [of "\<lparr>hotel_lat = Fin 48.8, hotel_lon = Fin 2.3, radius_km = Fin 10\<rparr>" stub_lib]
  by (simp add: in_mexico_def flt_def search_url_def stub_lib_def)

text \<open>
  Claim C10: when the parsed latitude or the parsed longitude is \<open>0.0\<close>, the resolution
  takes the fallback branch and gives the Tijuana URL; such a point is never inside the
  box, so the box rule alone would have given the coordinate-search URL.
\<close>

theorem zero_coordinate_resolves_to_tijuana:
  "hotel_lat q = Fin 0 \<or> hotel_lon q = Fin 0 \<Longrightarrow>
     resolve_url lib q = URL_TIJUANA \<and> \<not> in_mexico (hotel_lat q) (hotel_lon q)"
  by (auto simp: resolve_url_def in_mexico_def flt_def)

theorem zero_coordinate_witness:
  "resolve_url stub_lib \<lparr>hotel_lat = Fin 48.8, hotel_lon = Fin 0, radius_km = Fin 10\<rparr> =
     URL_TIJUANA \<and>
   \<not> in_mexico (Fin 48.8) (Fin 0)"
  using zero_coordinate_resolves_to_tijuana
      [of "\<lparr>hotel_lat = Fin 48.8, hotel_lon = Fin 0, radius_km = Fin 10\<rparr>" stub_lib]
  by simp

section \<open>Invalid arguments\<close>

text \<open>
  Claim C7: when fewer than three arguments follow the script name, or when one of the
  three does not parse as a float, the program prints exactly \<^verbatim>\<open>[]\<close>, the coroutine
  returns without an exception, and no external call is made: no browser installation
  check, no browser launch, no navigation.
\<close>

theorem bad_arguments_print_empty_array:
  "length argv < 4 \<or> parse_float lib (argv ! 1) = None \<or> parse_float lib (argv ! 2) = None \<or>
     parse_float lib (argv ! 3) = None \<Longrightarrow>
   main lib w argv = \<lparr>stdout = [JList []], actions = [], browser = False\<rparr> \<and>
   fst (scrape_songkick_events lib w argv) = Return"
  by (auto simp: main_def scrape_songkick_events_def parse_args_def print_line_def start_def
      split: option.splits)

theorem bad_arguments_witness:
  "main stub_lib calm_world [''scrape_songkick.py'', ''32.5'', ''-117.0''] =
     \<lparr>stdout = [JList []], actions = [], browser = False\<rparr> \<and>
   main stub_lib calm_world [''scrape_songkick.py'', ''32.5'', ''abc'', ''20''] =
     \<lparr>stdout = [JList []], actions = [], browser = False\<rparr>"
  using bad_arguments_print_empty_array
      [of "[''scrape_songkick.py'', ''32.5'', ''-117.0'']" stub_lib calm_world]
    bad_arguments_print_empty_array
      [of "[''scrape_songkick.py'', ''32.5'', ''abc'', ''20'']" stub_lib calm_world]
  by (simp add: stub_lib_def)

section \<open>Selector cascade\<close>

text \<open>
  Claim C8: the candidates are tried in order and the first one with at least one match
  supplies the elements, whatever the later candidates match; when no candidate matches,
  the generic search supplies them; and when that finds nothing either, the run goes on
  with no element and prints the empty array.
\<close>

theorem selector_cascade_first_match:
  "(selectores_html = pre @ sel # post \<and> (\<forall>p \<in> set pre. find_all doc p = []) \<and>
      find_all doc sel \<noteq> [] \<longrightarrow> select_events doc = find_all doc sel) \<and>
   ((\<forall>p \<in> set selectores_html. find_all doc p = []) \<longrightarrow> select_events doc = find_generic doc) \<and>
   ((\<forall>p \<in> set selectores_html. find_all doc p = []) \<and> find_generic doc = [] \<and>
      parse_html w html = Some doc \<longrightarrow>
      select_events doc = [] \<and> emit lib w q html s = print_line (JList []) s)"
proof -
  have first: "select_events doc = find_all doc sel"
    if "selectores_html = pre @ sel # post" "\<forall>p \<in> set pre. find_all doc p = []"
      "find_all doc sel \<noteq> []"
  proof -
    have "cascade doc selectores_html = find_all doc sel"
      using that cascade_first [of pre doc sel post] by simp
    then show ?thesis using that(3) by (simp add: select_events_def)
  qed
  have none: "select_events doc = find_generic doc"
    if "\<forall>p \<in> set selectores_html. find_all doc p = []"
    using that cascade_none [of selectores_html doc] by (simp add: select_events_def)
  have empty: "select_events doc = [] \<and> emit lib w q html s = print_line (JList []) s"
    if "\<forall>p \<in> set selectores_html. find_all doc p = []" "find_generic doc = []"
      "parse_html w html = Some doc"
    using that none by (simp add: emit_def)
  show ?thesis using first none empty by blast
qed

theorem selector_cascade_witness:
  "select_events sample_soup = [sample_listing] \<and>
   select_events empty_soup = [] \<and>
   emit stub_lib (calm_world\<lparr>parse_html := (\<lambda>h. Some empty_soup)\<rparr>) (tijuana_query (Fin 30))
     plain_page start = \<lparr>stdout = [JList []], actions = [], browser = False\<rparr>"
  using selector_cascade_first_match
      [where pre = "[(''li'', ''class_'', ''event-listings-element''), (''li'', ''class_'', ''event''),
                     (''div'', ''class_'', ''event-listings-element''), (''div'', ''class_'', ''event''),
                     (''article'', ''class_'', ''event'')]"
         and sel = "(''div'', ''data-testid'', ''event-item'')"
         and post = "[(''li'', ''class_'', ''event-item'')]"
         and doc = sample_soup]
    selector_cascade_first_match
      [where doc = empty_soup and w = "calm_world\<lparr>parse_html := (\<lambda>h. Some empty_soup)\<rparr>"
         and html = plain_page and lib = stub_lib and q = "tijuana_query (Fin 30)" and s = start]
  by (simp add: selectores_html_def sample_soup_def empty_soup_def print_line_def start_def)

section \<open>Release of the browser\<close>

text \<open>
  Once the variable \<^verbatim>\<open>browser\<close> is set, every run of the coroutine that does not end
  cancelled has called \<^verbatim>\<open>browser.close()\<close>: in a failure branch, in the \<^verbatim>\<open>finally\<close>
  clause, or in the outer handler.
\<close>

lemma close_called_unless_cancelled:
  "scrape_songkick_events lib w argv = (fl, s) \<Longrightarrow> browser s \<Longrightarrow> fl \<noteq> Cancel \<Longrightarrow>
     CloseBrowser \<in> set (actions s)"
proof -
  assume run: "scrape_songkick_events lib w argv = (fl, s)"
    and b: "browser s" and nc: "fl \<noteq> Cancel"
  show ?thesis
  proof (cases "parse_args lib argv")
    case TooFew
    then show ?thesis
      using run b by (auto simp: scrape_songkick_events_def print_line_def start_def)
  next
    case NotAFloat
    then show ?thesis
      using run b by (auto simp: scrape_songkick_events_def print_line_def start_def)
  next
    case (Parsed q)
    obtain f2 s2 where br: "browse w (resolve_url lib q) (act EnsureBrowsers start) = (f2, s2)"
      by (cases "browse w (resolve_url lib q) (act EnsureBrowsers start)")
    have nb: "\<not> browser (act EnsureBrowsers start)"
      by (simp add: act_def start_def)
    have "browser s2 \<and> f2 \<noteq> Cancel \<and> actions s = actions s2"
      using run Parsed br b nc emit_keeps
      by (cases f2) (auto simp: scrape_songkick_events_def)
    then show ?thesis
      using browse_closes [OF nb br] by simp
  qed
qed


section \<open>Coordinates, distance filter and rounding\<close>

text \<open>
  Claim C3 as stated says that the distance of every emitted record is at most the radius.
  With the radius argument \<^verbatim>\<open>nan\<close>, which \<^verbatim>\<open>float()\<close> accepts, the comparison of line 374
  is false for every distance, and the sample listing at 25 km is emitted although
  \<open>25 \<le> radius\<close> does not hold.
\<close>

theorem nan_radius_keeps_distant_record:
  "parse_float stub_lib ''nan'' = Some NaN \<and>
   process_element stub_lib (tijuana_query NaN) sample_listing = Emitted sample_event \<and>
   geodesic_km stub_lib (Fin 32.5, Fin (- 117)) (latitude sample_event, longitude sample_event) =
     Some (Fin 25) \<and>
   \<not> fle (Fin 25) (radius_km (tijuana_query NaN))"
  by (simp add: sample_listing_emitted) (simp add: stub_lib_def sample_event_def tijuana_query_def)

text \<open>
  Claim C3, amended: an element whose latitude or longitude is unset (absent, JSON null,
  or left unset by a failure while reading the linked-data block) is dropped before the
  distance is computed, whatever the distance function would do. Any other coordinate
  value, numeric or not, is handed to the distance function. For every emitted record the
  function returned a distance \<open>d\<close> for the record's coordinates, the comparison
  \<open>d > radius_km\<close> was false, so that \<open>d \<le> radius_km\<close> whenever neither is NaN, and
  \<open>distance_km\<close> is \<open>d\<close> rounded to two decimals, within 0.01 of \<open>d\<close> and at most
  \<open>radius_km + 0.01\<close>.
\<close>

theorem emitted_record_distance:
  "(fst (coords_of (ld li)) = JNull \<or> snd (coords_of (ld li)) = JNull \<longrightarrow>
      process_element lib q li = NoCoords) \<and>
   (process_element lib q li = Emitted e \<longrightarrow>
      (latitude e, longitude e) = coords_of (ld li) \<and>
      latitude e \<noteq> JNull \<and> longitude e \<noteq> JNull \<and>
      (\<exists>d. geodesic_km lib (hotel_lat q, hotel_lon q) (latitude e, longitude e) = Some d \<and>
           \<not> fgt d (radius_km q) \<and>
           (d \<noteq> NaN \<and> radius_km q \<noteq> NaN \<longrightarrow> fle d (radius_km q)) \<and>
           distance_km e = py_round2 d \<and>
           (\<forall>x r. d = Fin x \<and> radius_km q = Fin r \<longrightarrow>
              x \<le> r \<and>
              (\<exists>y. distance_km e = Fin y \<and> \<bar>y - x\<bar> \<le> 1 / 100 \<and> y \<le> r + 1 / 100))))"
proof -
  have unset: "process_element lib q li = NoCoords"
    if "fst (coords_of (ld li)) = JNull \<or> snd (coords_of (ld li)) = JNull"
    using that by (cases "coords_of (ld li)") (auto simp: process_element_def)
  have emitted:
    "(latitude e, longitude e) = coords_of (ld li) \<and>
      latitude e \<noteq> JNull \<and> longitude e \<noteq> JNull \<and>
      (\<exists>d. geodesic_km lib (hotel_lat q, hotel_lon q) (latitude e, longitude e) = Some d \<and>
           \<not> fgt d (radius_km q) \<and>
           (d \<noteq> NaN \<and> radius_km q \<noteq> NaN \<longrightarrow> fle d (radius_km q)) \<and>
           distance_km e = py_round2 d \<and>
           (\<forall>x r. d = Fin x \<and> radius_km q = Fin r \<longrightarrow>
              x \<le> r \<and>
              (\<exists>y. distance_km e = Fin y \<and> \<bar>y - x\<bar> \<le> 1 / 100 \<and> y \<le> r + 1 / 100)))"
    if em: "process_element lib q li = Emitted e"
  proof -
    obtain la lo where c: "coords_of (ld li) = (la, lo)"
      by (cases "coords_of (ld li)")
    from em c have nn: "la \<noteq> JNull" "lo \<noteq> JNull"
      by (auto simp: process_element_def split: if_splits)
    from em c nn obtain d where
      d: "geodesic_km lib (hotel_lat q, hotel_lon q) (la, lo) = Some d"
      by (auto simp: process_element_def split: option.splits)
    from em c nn d have far: "\<not> fgt d (radius_km q)"
      by (auto simp: process_element_def split: if_splits)
    from em c nn d far have e:
      "latitude e = la" "longitude e = lo" "distance_km e = py_round2 d"
      by (auto simp: process_element_def)
    have le: "d \<noteq> NaN \<and> radius_km q \<noteq> NaN \<longrightarrow> fle d (radius_km q)"
      using far not_fgt_fle by blast
    have fin: "x \<le> r \<and> (\<exists>y. distance_km e = Fin y \<and> \<bar>y - x\<bar> \<le> 1 / 100 \<and> y \<le> r + 1 / 100)"
      if "d = Fin x \<and> radius_km q = Fin r" for x r
    proof -
      from that far have xr: "x \<le> r" by simp
      obtain y where y: "py_round2 (Fin x) = Fin y"
        using py_round2.simps(1) by blast
      have "\<bar>y - x\<bar> \<le> 1 / 200" using py_round2_near [OF y] .
      then have "\<bar>y - x\<bar> \<le> 1 / 100 \<and> y \<le> r + 1 / 100" using xr by linarith
      then show ?thesis using xr y e that by simp
    qed
    show ?thesis
      using c nn d far e le fin by auto
  qed
  show ?thesis using unset emitted by blast
qed

theorem emitted_record_distance_witness:
  "process_element stub_lib (tijuana_query (Fin 30)) sample_listing = Emitted sample_event \<and>
   latitude sample_event \<noteq> JNull \<and> longitude sample_event \<noteq> JNull \<and>
   geodesic_km stub_lib (Fin 32.5, Fin (- 117))
     (latitude sample_event, longitude sample_event) = Some (Fin 25) \<and>
   fle (Fin 25) (Fin 30) \<and> distance_km sample_event = py_round2 (Fin 25) \<and>
   process_element stub_lib (tijuana_query (Fin 30)) (sample_listing\<lparr>ld := NoScript\<rparr>) = NoCoords"
proof -
  have em: "process_element stub_lib (tijuana_query (Fin 30)) sample_listing = Emitted sample_event"
    by (simp add: sample_listing_emitted)
  have un: "fst (coords_of (ld (sample_listing\<lparr>ld := NoScript\<rparr>))) = JNull"
    by (simp add: coords_of_def)
  have d: "geodesic_km stub_lib (Fin 32.5, Fin (- 117))
      (latitude sample_event, longitude sample_event) = Some (Fin 25)"
    by (simp add: stub_lib_def sample_event_def)
  show ?thesis
    using emitted_record_distance
        [of sample_listing stub_lib "tijuana_query (Fin 30)" sample_event]
      emitted_record_distance
        [of "sample_listing\<lparr>ld := NoScript\<rparr>" stub_lib "tijuana_query (Fin 30)" sample_event]
      em un d
    by (auto simp: tijuana_query_def)
qed

text \<open>
  Claim C4 as stated says that the distance computation of the filter is total and
  returns \<open>0.0\<close> for invalid input instead of raising. The filter calls geopy's
  \<^verbatim>\<open>geodesic\<close> with no guard around it. For a listing whose latitude is the string
  \<^verbatim>\<open>"abc"\<close> the call raises, the handler of line 386 skips the element, and no distance,
  zero or other, is produced: with a distance of zero the record would have been inside
  the radius and emitted.
\<close>

theorem distance_call_raises_without_zero:
  "coords_of (ld (sample_listing\<lparr>ld := geo_payload (JStr ''abc'') (JNum (Fin (- 117.1)))\<rparr>)) =
     (JStr ''abc'', JNum (Fin (- 117.1))) \<and>
   geodesic_km stub_lib (Fin 32.5, Fin (- 117)) (JStr ''abc'', JNum (Fin (- 117.1))) = None \<and>
   process_element stub_lib (tijuana_query (Fin 30))
     (sample_listing\<lparr>ld := geo_payload (JStr ''abc'') (JNum (Fin (- 117.1)))\<rparr>) = DistanceRaised \<and>
   eventos_of stub_lib (tijuana_query (Fin 30))
     [sample_listing\<lparr>ld := geo_payload (JStr ''abc'') (JNum (Fin (- 117.1)))\<rparr>] = []"
  by (simp add: coords_of_geo_payload process_element_def stub_lib_def tijuana_query_def)

text \<open>
  Claim C4, amended: the distance used by the filter is what the distance function of the
  library returns, with no substitute value. When that function raises on the
  coordinates of an element, the element is skipped, the elements before and after it are
  processed as if it were absent, and the run still prints its one array.
\<close>

theorem distance_error_skips_element:
  "coords_of (ld li) = (la, lo) \<Longrightarrow> la \<noteq> JNull \<Longrightarrow> lo \<noteq> JNull \<Longrightarrow>
   geodesic_km lib (hotel_lat q, hotel_lon q) (la, lo) = None \<Longrightarrow>
     process_element lib q li = DistanceRaised \<and>
     eventos_of lib q (before @ li # after) = eventos_of lib q before @ eventos_of lib q after \<and>
     (\<exists>xs. stdout (emit lib w q html s) = stdout s @ [JList xs])"
  using emit_one_line [of lib w q html s]
  by (simp add: eventos_of_append process_element_def)

theorem distance_error_witness:
  "eventos_of stub_lib (tijuana_query (Fin 30))
     ([sample_listing] @
      sample_listing\<lparr>ld := geo_payload (JStr ''abc'') (JNum (Fin (- 117.1)))\<rparr> #
      [sample_listing]) = [sample_event, sample_event]"
  using distance_error_skips_element
      [of "sample_listing\<lparr>ld := geo_payload (JStr ''abc'') (JNum (Fin (- 117.1)))\<rparr>"
        "JStr ''abc''" "JNum (Fin (- 117.1))" stub_lib "tijuana_query (Fin 30)"
        "[sample_listing]" "[sample_listing]"]
    sample_listing_emitted [of "Fin 30"]
  by (simp add: coords_of_geo_payload) (simp add: stub_lib_def)

section \<open>Fields of an emitted record\<close>

text \<open>
  Claim C5 as stated says that every record has exactly the fields \<^verbatim>\<open>name\<close>, \<^verbatim>\<open>date\<close>,
  \<^verbatim>\<open>venue\<close>, \<^verbatim>\<open>link\<close>, \<^verbatim>\<open>latitude\<close>, \<^verbatim>\<open>longitude\<close> and \<^verbatim>\<open>distance_km\<close>. The record
  printed by the run in which nothing fails has the first four under the keys
  \<^verbatim>\<open>nombre\<close>, \<^verbatim>\<open>fecha\<close>, \<^verbatim>\<open>lugar\<close> and \<^verbatim>\<open>enlace\<close>.
\<close>

theorem record_keys_are_spanish:
  "stdout (main stub_lib calm_world argv_tijuana) = [JList [event_json sample_event]] \<and>
   keys_of (event_json sample_event) =
     [''nombre'', ''fecha'', ''lugar'', ''enlace'', ''latitude'', ''longitude'', ''distance_km''] \<and>
   keys_of (event_json sample_event) \<noteq>
     [''name'', ''date'', ''venue'', ''link'', ''latitude'', ''longitude'', ''distance_km'']"
  by (simp add: calm_run event_json_def)

text \<open>
  Claim C5, amended: every record of the printed array is an object with exactly the keys
  \<^verbatim>\<open>nombre\<close>, \<^verbatim>\<open>fecha\<close>, \<^verbatim>\<open>lugar\<close>, \<^verbatim>\<open>enlace\<close>, \<^verbatim>\<open>latitude\<close>, \<^verbatim>\<open>longitude\<close> and
  \<^verbatim>\<open>distance_km\<close>, in this order, and it comes from a listing element whose event link
  gives \<^verbatim>\<open>enlace\<close>: the site's base URL followed by the \<^verbatim>\<open>href\<close>, or the empty string when
  there is no event link with an \<^verbatim>\<open>href\<close>.
\<close>

theorem record_fields:
  "e \<in> set (eventos_of lib q lis) \<Longrightarrow>
     keys_of (event_json e) =
       [''nombre'', ''fecha'', ''lugar'', ''enlace'', ''latitude'', ''longitude'', ''distance_km''] \<and>
     (\<exists>li \<in> set lis. process_element lib q li = Emitted e \<and>
        enlace e = (case event_href li of
                      Some h \<Rightarrow> ''https://www.songkick.com'' @ h
                    | None \<Rightarrow> []))"
proof -
  assume "e \<in> set (eventos_of lib q lis)"
  then obtain li where li: "li \<in> set lis" "process_element lib q li = Emitted e"
    using eventos_of_origin by blast
  from li(2) have "enlace e = enlace_of li"
    by (auto simp: process_element_def split: prod.splits if_splits option.splits)
  then have "process_element lib q li = Emitted e \<and>
        enlace e = (case event_href li of
                      Some h \<Rightarrow> ''https://www.songkick.com'' @ h
                    | None \<Rightarrow> [])"
    using li by (simp add: enlace_of_def BASE_URL_def split: option.splits)
  then show ?thesis
    using li(1) by (auto simp: event_json_def)
qed

theorem record_fields_witness:
  "sample_event \<in> set (eventos_of stub_lib (tijuana_query (Fin 30)) [sample_listing]) \<and>
   keys_of (event_json sample_event) =
     [''nombre'', ''fecha'', ''lugar'', ''enlace'', ''latitude'', ''longitude'', ''distance_km''] \<and>
   enlace sample_event = ''https://www.songkick.com'' @ ''/concerts/123''"
proof -
  have m: "sample_event \<in> set (eventos_of stub_lib (tijuana_query (Fin 30)) [sample_listing])"
    by (simp add: sample_listing_emitted)
  show ?thesis
    using m record_fields [OF m]
    by (simp add: sample_listing_def)
qed

text \<open>
  Claim C6 as stated says that a non-empty date field is exactly ten characters long and
  has the form YYYY-MM-DD. A listing whose \<^verbatim>\<open>datetime\<close> attribute is \<^verbatim>\<open>2024\<close> is emitted
  with the date \<^verbatim>\<open>2024\<close>.
\<close>

theorem short_date_is_kept:
  "process_element stub_lib (tijuana_query (Fin 30)) (sample_listing\<lparr>time_datetime := Some ''2024''\<rparr>) =
     Emitted (sample_event\<lparr>fecha := ''2024''\<rparr>) \<and>
   fecha (sample_event\<lparr>fecha := ''2024''\<rparr>) \<noteq> [] \<and>
   length (fecha (sample_event\<lparr>fecha := ''2024''\<rparr>)) = 4"
  by (simp add: process_element_def sample_listing_def coords_of_geo_payload tijuana_query_def
      stub_lib_def nombre_of_def fecha_of_def raw_fecha_def lugar_of_def enlace_of_def
      BASE_URL_def round_half_even_def sample_event_def)

text \<open>
  Claim C6, amended: the date field of an emitted record is the \<^verbatim>\<open>datetime\<close> attribute of
  the time element when present, else the \<^verbatim>\<open>title\<close> attribute of the element, else the
  empty string, cut to its first ten characters. It has at most ten characters, and
  exactly ten when the attribute has ten or more. Its form is not checked.
\<close>

theorem record_date:
  "process_element lib q li = Emitted e \<Longrightarrow>
     fecha e = take 10 (raw_fecha li) \<and> length (fecha e) \<le> 10 \<and>
     (10 \<le> length (raw_fecha li) \<longrightarrow> length (fecha e) = 10) \<and>
     raw_fecha li = (case time_datetime li of
                       Some d \<Rightarrow> d
                     | None \<Rightarrow> (case title_attr li of Some t \<Rightarrow> t | None \<Rightarrow> []))"
proof -
  assume "process_element lib q li = Emitted e"
  then have "fecha e = fecha_of li"
    by (auto simp: process_element_def split: prod.splits if_splits option.splits)
  then show ?thesis
    by (auto simp: fecha_of_def Let_def raw_fecha_def)
qed

theorem record_date_witness:
  "fecha sample_event = take 10 ''2024-06-01T20:00:00-0700'' \<and> length (fecha sample_event) = 10"
  using record_date [of stub_lib "tijuana_query (Fin 30)" sample_listing sample_event]
    sample_listing_emitted [of "Fin 30"]
  by (simp add: raw_fecha_def sample_listing_def)

end
